theory Spec2Isabelle
  imports Main
begin

section \<open>The identity provider of samlify (entity-idp.ts)\<close>

text \<open>
  The development embeds the class \<^verbatim>\<open>IdentityProvider\<close> of
  \<^verbatim>\<open>src/entity-idp.ts\<close>: its constructor and its two methods
  \<^verbatim>\<open>createLoginResponse\<close> and \<^verbatim>\<open>parseLoginRequest\<close>.
  The class calls into modules that are not part of the file (\<^verbatim>\<open>./entity\<close>,
  \<^verbatim>\<open>./libsaml\<close>, \<^verbatim>\<open>./urn\<close>, \<^verbatim>\<open>./binding-post\<close>). Each
  of them enters the model as a parameter of the function that calls it, so a
  theorem on the class holds for every implementation of the collaborator. Where a
  claim is decided by a collaborator itself, the collaborator is modelled from the
  specification, and the definition says so.
\<close>

subsection \<open>JavaScript values\<close>

text \<open>
  The settings handed to the constructor are a plain JavaScript object (the class
  documents \<^verbatim>\<open>{object} idpSetting\<close>; on \<^verbatim>\<open>undefined\<close> or \<^verbatim>\<open>null\<close> line 64
  throws a TypeError, which the model leaves out). An object is a finite map from
  the names of its own enumerable properties to their values; a property that is
  present and bound to \<^verbatim>\<open>undefined\<close> is \<open>Some Undefined\<close>, an absent one is
  \<open>None\<close>. \<open>Fn\<close> stands for a function value (for instance \<^verbatim>\<open>generateID\<close>),
  named by a tag. Numbers are the integers; no setting of the class is a fraction or
  NaN.
\<close>

datatype jsval =
    Undefined
  | Null
  | Bool bool
  | Num int
  | Str string
  | Arr "jsval list"
  | Obj "string \<Rightarrow> jsval option"
  | Fn string

type_synonym object = "string \<Rightarrow> jsval option"

text \<open>The truth value JavaScript gives a value in \<^verbatim>\<open>if (v)\<close> and \<^verbatim>\<open>v || w\<close>.\<close>

fun truthy :: "jsval \<Rightarrow> bool" where
  "truthy Undefined = False"
| "truthy Null = False"
| "truthy (Bool b) = b"
| "truthy (Num n) = (n \<noteq> 0)"
| "truthy (Str s) = (s \<noteq> [])"
| "truthy (Arr xs) = True"
| "truthy (Obj m) = True"
| "truthy (Fn f) = True"

text \<open>
  \<^verbatim>\<open>o.k\<close> on an object of the model: the value of the property, \<^verbatim>\<open>undefined\<close>
  when the object has none of that name.
\<close>

definition get :: "object \<Rightarrow> string \<Rightarrow> jsval" where
  "get m k = (case m k of Some v \<Rightarrow> v | None \<Rightarrow> Undefined)"

text \<open>
  \<^verbatim>\<open>v.k\<close> on a value that passed a truthiness test (so neither \<^verbatim>\<open>undefined\<close>
  nor \<^verbatim>\<open>null\<close>, where JavaScript throws). The class reads only the properties
  \<^verbatim>\<open>context\<close> and \<^verbatim>\<open>attributes\<close> this way, which booleans, numbers, strings,
  arrays and functions do not have.
\<close>

fun getProp :: "jsval \<Rightarrow> string \<Rightarrow> jsval" where
  "getProp (Obj m) k = get m k"
| "getProp v k = Undefined"

text \<open>lodash's \<^verbatim>\<open>isString\<close> and \<^verbatim>\<open>Array.isArray\<close>.\<close>

fun isString :: "jsval \<Rightarrow> bool" where
  "isString (Str s) = True"
| "isString v = False"

fun isArray :: "jsval \<Rightarrow> bool" where
  "isArray (Arr xs) = True"
| "isArray v = False"

text \<open>
  The own properties an object spread \<^verbatim>\<open>{...v}\<close> copies. The constructor spreads
  the template only after it has read a string from its \<^verbatim>\<open>context\<close>, so the value is
  an object there.
\<close>

fun spread :: "jsval \<Rightarrow> object" where
  "spread (Obj m) = m"
| "spread v = Map.empty"

text \<open>
  \<^verbatim>\<open>Object.assign(target, source)\<close> writes every own enumerable property of the
  source to the target with an ordinary assignment, also one bound to
  \<^verbatim>\<open>undefined\<close>; the other properties of the target stay. (An object spread, in
  contrast, defines the properties it copies, whatever their names.) An assignment
  to the name \<^verbatim>\<open>__proto__\<close> creates no property: it reaches the
  setter the target inherits from \<^verbatim>\<open>Object.prototype\<close>, which replaces the
  prototype of the target when the value is an object or \<^verbatim>\<open>null\<close> and does nothing
  otherwise. An object of the model is the map of its own properties, so the merge
  passes over that name. The constructor reads from the merged object only the
  property \<^verbatim>\<open>loginResponseTemplate\<close>, and only where the source has it, so the
  property is the merged object's own and a replaced prototype does not enter what
  the constructor computes. Settings are data: a function under the name
  \<^verbatim>\<open>__proto__\<close>, whose read-only properties \<^verbatim>\<open>name\<close> and \<^verbatim>\<open>length\<close> would
  make later assignments throw, is outside them.
\<close>

definition Object_assign :: "object \<Rightarrow> object \<Rightarrow> object" where
  "Object_assign target source = target ++ source(''__proto__'' := None)"

subsection \<open>Errors\<close>

text \<open>
  \<open>Error msg\<close> is the JavaScript \<^verbatim>\<open>Error\<close> the class itself throws. The other
  constructors are the failures of the collaborators.
\<close>

datatype error =
    Error string
  | BindingDecodeError
  | MalformedXmlError
  | SignatureVerificationError
  | MissingRequiredElementError
  | EncryptionError
  | DecryptionError

subsection \<open>The constructor\<close>

definition defaultIdpEntitySetting :: object where
  "defaultIdpEntitySetting =
     [''wantAuthnRequestsSigned'' \<mapsto> Bool False,
      ''tagPrefix'' \<mapsto> Obj [''encryptedAssertion'' \<mapsto> Str ''saml'']]"

text \<open>
  Lines 56 to 76 of the constructor: the settings it hands to the constructor of
  \<^verbatim>\<open>Entity\<close>, and the lines written to the console. The two functions of
  \<^verbatim>\<open>libsaml\<close> are parameters; each may throw.
\<close>

definition constructor_entitySetting ::
  "(jsval \<Rightarrow> error + jsval) \<Rightarrow> (jsval \<Rightarrow> jsval \<Rightarrow> error + jsval) \<Rightarrow> object
     \<Rightarrow> (error + object) \<times> string list" where
  "constructor_entitySetting attributeStatementBuilder replaceTagsByValue idpSetting =
     (let entitySetting = Object_assign defaultIdpEntitySetting idpSetting in
      if truthy (get idpSetting ''loginResponseTemplate'') then
        if isString (getProp (get idpSetting ''loginResponseTemplate'') ''context'')
           \<and> isArray (getProp (get idpSetting ''loginResponseTemplate'') ''attributes'')
        then
          (case attributeStatementBuilder
                  (getProp (get idpSetting ''loginResponseTemplate'') ''attributes'') of
             Inl e \<Rightarrow> (Inl e, [])
           | Inr statement \<Rightarrow>
               (case replaceTagsByValue
                       (getProp (get entitySetting ''loginResponseTemplate'') ''context'')
                       (Obj [''AttributeStatement'' \<mapsto> statement]) of
                  Inl e \<Rightarrow> (Inl e, [])
                | Inr ctx \<Rightarrow>
                    (Inr (entitySetting(''loginResponseTemplate'' \<mapsto>
                            Obj ((spread (get entitySetting ''loginResponseTemplate''))
                                   (''context'' \<mapsto> ctx)))),
                     [])))
        else (Inr entitySetting, [''Invalid login response template''])
      else (Inr entitySetting, []))"

subsection \<open>Entities\<close>

text \<open>
  \<^verbatim>\<open>entityMeta\<close> is the metadata object of an entity. The class calls two of its
  methods; the record holds what each returns.
\<close>

record metadata =
  isWantAuthnRequestsSigned :: bool
  getAssertionConsumerService :: "string \<Rightarrow> jsval"

record entity =
  entitySetting :: object
  entityMeta :: metadata

text \<open>
  \<^verbatim>\<open>new IdentityProvider(idpSetting)\<close>: the settings are computed, then
  \<^verbatim>\<open>super(entitySetting, 'idp')\<close> builds the entity. The constructor of
  \<^verbatim>\<open>Entity\<close> is a parameter.
\<close>

definition IdentityProvider ::
  "(object \<Rightarrow> string \<Rightarrow> error + entity) \<Rightarrow> (jsval \<Rightarrow> error + jsval)
     \<Rightarrow> (jsval \<Rightarrow> jsval \<Rightarrow> error + jsval) \<Rightarrow> object
     \<Rightarrow> (error + entity) \<times> string list" where
  "IdentityProvider Entity attributeStatementBuilder replaceTagsByValue idpSetting =
     (case constructor_entitySetting attributeStatementBuilder replaceTagsByValue idpSetting of
        (Inl e, console) \<Rightarrow> (Inl e, console)
      | (Inr setting, console) \<Rightarrow> (Entity setting ''idp'', console))"

subsection \<open>The state the methods run in\<close>

text \<open>
  A method runs on the identity provider it belongs to (\<^verbatim>\<open>this\<close>, the field
  \<open>idp\<close>) and may, through its collaborators, change anything else (\<open>ext\<close>: the
  signing and encryption engines, the console, the network). A method takes the state
  and returns its result with the state it leaves.
\<close>

record 'x world =
  idp :: entity
  ext :: 'x

subsection \<open>createLoginResponse\<close>

text \<open>
  \<^verbatim>\<open>a || b\<close> on two entries of the table \<^verbatim>\<open>namespace.binding\<close>. The table
  maps a binding name to a URN string; \<open>None\<close> is \<^verbatim>\<open>undefined\<close>, which is falsy,
  as the empty string is.
\<close>

definition or_else :: "string option \<Rightarrow> string option \<Rightarrow> string option" where
  "or_else a b = (case a of None \<Rightarrow> b | Some s \<Rightarrow> if s = [] then b else Some s)"

text \<open>
  The method, with the table \<^verbatim>\<open>namespace.binding\<close> of \<^verbatim>\<open>urn.ts\<close> and
  \<^verbatim>\<open>postBinding.base64LoginResponse\<close> as parameters. The latter receives
  \<^verbatim>\<open>{idp: this, sp}\<close>: \<open>sp\<close> as an argument and \<^verbatim>\<open>this\<close> in the state. A
  thrown error is \<open>Inl\<close>; the rejected promise of the \<^verbatim>\<open>async\<close> method is the
  same value. The endpoint is read from \<open>sp\<close> after the builder has returned;
  \<open>sp\<close> is passed by value. A name the table inherits from
  \<^verbatim>\<open>Object.prototype\<close> is bound to an object or a function there, never to a
  string, so the source throws on it; the model reads \<open>None\<close> and falls back to
  \<^verbatim>\<open>redirect\<close>, which throws as well wherever the protocols of
  \<^verbatim>\<open>redirect\<close> and \<^verbatim>\<open>post\<close> differ.
\<close>

definition createLoginResponse ::
  "(string \<Rightarrow> string option)
     \<Rightarrow> (jsval \<Rightarrow> entity \<Rightarrow> jsval \<Rightarrow> jsval \<Rightarrow> jsval \<Rightarrow> 'x world \<Rightarrow> (error + object) \<times> 'x world)
     \<Rightarrow> entity \<Rightarrow> jsval \<Rightarrow> string \<Rightarrow> jsval \<Rightarrow> jsval \<Rightarrow> jsval
     \<Rightarrow> 'x world \<Rightarrow> (error + object) \<times> 'x world" where
  "createLoginResponse namespace_binding base64LoginResponse
       sp requestInfo binding user customTagReplacement encryptThenSign w =
     (let protocol = or_else (namespace_binding binding) (namespace_binding ''redirect'') in
      if protocol = namespace_binding ''post'' then
        (case base64LoginResponse requestInfo sp user customTagReplacement encryptThenSign w of
           (Inl e, w') \<Rightarrow> (Inl e, w')
         | (Inr context, w') \<Rightarrow>
             (Inr (context(''entityEndpoint'' \<mapsto>
                             getAssertionConsumerService (entityMeta sp) binding,
                           ''type'' \<mapsto> Str ''SAMLResponse'')),
              w'))
      else (Inl (Error ''this binding is not supported''), w))"

subsection \<open>parseLoginRequest\<close>

text \<open>
  The options object handed to \<^verbatim>\<open>genericParser\<close>. The fields \<open>from_peer\<close> and
  \<open>type_tag\<close> are the properties \<^verbatim>\<open>from\<close> and \<^verbatim>\<open>type\<close> of the source.
\<close>

record parser_options =
  parserFormat :: "jsval list"
  from_peer :: entity
  checkSignature :: bool
  parserType :: string
  type_tag :: string

text \<open>
  The method, with \<^verbatim>\<open>this.genericParser\<close> (inherited from \<^verbatim>\<open>Entity\<close>) as a
  parameter.
\<close>

definition parseLoginRequest ::
  "(parser_options \<Rightarrow> string \<Rightarrow> object \<Rightarrow> 'x world \<Rightarrow> (error + object) \<times> 'x world)
     \<Rightarrow> entity \<Rightarrow> string \<Rightarrow> object \<Rightarrow> 'x world \<Rightarrow> (error + object) \<times> 'x world" where
  "parseLoginRequest genericParser sp binding req w =
     genericParser
       \<lparr>parserFormat =
          [Str ''AuthnContextClassRef'', Str ''Issuer'',
           Obj [''localName'' \<mapsto> Str ''Signature'', ''extractEntireBody'' \<mapsto> Bool True],
           Obj [''localName'' \<mapsto> Str ''AuthnRequest'', ''attributes'' \<mapsto> Arr [Str ''ID'']],
           Obj [''localName'' \<mapsto> Str ''NameIDPolicy'',
                ''attributes'' \<mapsto> Arr [Str ''Format'', Str ''AllowCreate'']]],
        from_peer = sp,
        checkSignature = isWantAuthnRequestsSigned (entityMeta (idp w)),
        parserType = ''SAMLRequest'',
        type_tag = ''login''\<rparr>
       binding req w"

subsection \<open>The generic parser\<close>

text \<open>
  Modelled from the spec: \<^verbatim>\<open>Entity.genericParser\<close> (\<^verbatim>\<open>entity.ts\<close>, not among
  the sources), after section 4.6 of the specification. The binding codec, the XML
  parser, the signature engine and the extraction of one entry of \<open>parserFormat\<close> are
  the fields of \<open>engines\<close>; \<open>'d\<close> is the type of parsed documents. The steps: (1) decode
  the transport value, (2) parse the XML, (3) when \<open>checkSignature\<close> is set, verify
  the signature against the peer \<open>from_peer\<close>, (4) extract every entry of
  \<open>parserFormat\<close>, (5) return the map of extracted fields. The first failure ends the
  call, and the state is not written.
\<close>

record 'd engines =
  decode :: "string \<Rightarrow> object \<Rightarrow> string option"
  parse_xml :: "string \<Rightarrow> 'd option"
  verify :: "'d \<Rightarrow> entity \<Rightarrow> bool"
  extract_entry :: "'d \<Rightarrow> jsval \<Rightarrow> object option"

fun extract_all :: "('d \<Rightarrow> jsval \<Rightarrow> object option) \<Rightarrow> 'd \<Rightarrow> jsval list \<Rightarrow> object option" where
  "extract_all ex doc [] = Some Map.empty"
| "extract_all ex doc (f # fs) =
     (case ex doc f of
        None \<Rightarrow> None
      | Some m \<Rightarrow> (case extract_all ex doc fs of None \<Rightarrow> None | Some r \<Rightarrow> Some (m ++ r)))"

definition Entity_genericParser ::
  "'d engines \<Rightarrow> parser_options \<Rightarrow> string \<Rightarrow> object \<Rightarrow> 'x world
     \<Rightarrow> (error + object) \<times> 'x world" where
  "Entity_genericParser eng opts binding req w =
     (case decode eng binding req of
        None \<Rightarrow> (Inl BindingDecodeError, w)
      | Some xml \<Rightarrow>
          (case parse_xml eng xml of
             None \<Rightarrow> (Inl MalformedXmlError, w)
           | Some doc \<Rightarrow>
               if checkSignature opts \<and> \<not> verify eng doc (from_peer opts)
               then (Inl SignatureVerificationError, w)
               else (case extract_all (extract_entry eng) doc (parserFormat opts) of
                       None \<Rightarrow> (Inl MissingRequiredElementError, w)
                     | Some result \<Rightarrow> (Inr result, w))))"

subsection \<open>The response builder\<close>

text \<open>
  Modelled from the spec: \<^verbatim>\<open>postBinding.base64LoginResponse\<close>
  (\<^verbatim>\<open>binding-post.ts\<close>, not among the sources), after sections 2, 4.3, 4.7 and 5
  of the specification. The engines are the fields of \<open>response_engines\<close>: the
  template substitution (4.1), which receives both entities, the request answered,
  the user and the caller's \<^verbatim>\<open>customTagReplacement\<close>; the signature engine (4.2)
  with the key of the identity provider; the choice whether the assertion is
  encrypted, and the encryption engine (4.3) with the certificate of the service
  provider; the POST codec (4.5). The steps: fill the template, then sign and, where
  the assertion is encrypted, encrypt (signing first unless \<^verbatim>\<open>encryptThenSign\<close> asks
  for the other order), then encode. The first failure ends the call. The settings of
  the entities are read and never written (sections 3 and 5), so the state is
  returned as it came.
\<close>

record response_engines =
  fill_template :: "entity \<Rightarrow> entity \<Rightarrow> jsval \<Rightarrow> jsval \<Rightarrow> jsval \<Rightarrow> error + string"
  sign_xml :: "string \<Rightarrow> entity \<Rightarrow> error + string"
  encrypts_assertion :: "entity \<Rightarrow> entity \<Rightarrow> bool"
  encrypt_assertion :: "string \<Rightarrow> entity \<Rightarrow> error + string"
  encode_post :: "string \<Rightarrow> string"

definition postBinding_base64LoginResponse ::
  "response_engines \<Rightarrow> jsval \<Rightarrow> entity \<Rightarrow> jsval \<Rightarrow> jsval \<Rightarrow> jsval \<Rightarrow> 'x world
     \<Rightarrow> (error + object) \<times> 'x world" where
  "postBinding_base64LoginResponse eng requestInfo sp user customTagReplacement
       encryptThenSign w =
     (case fill_template eng (idp w) sp requestInfo user customTagReplacement of
        Inl e \<Rightarrow> (Inl e, w)
      | Inr xml \<Rightarrow>
          (case (if \<not> encrypts_assertion eng (idp w) sp then sign_xml eng xml (idp w)
                 else if truthy encryptThenSign then
                   (case encrypt_assertion eng xml sp of
                      Inl e \<Rightarrow> Inl e
                    | Inr encrypted \<Rightarrow> sign_xml eng encrypted (idp w))
                 else
                   (case sign_xml eng xml (idp w) of
                      Inl e \<Rightarrow> Inl e
                    | Inr signed \<Rightarrow> encrypt_assertion eng signed sp)) of
             Inl e \<Rightarrow> (Inl e, w)
           | Inr protected \<Rightarrow> (Inr [''context'' \<mapsto> Str (encode_post eng protected)], w)))"

subsection \<open>Concrete inputs\<close>

text \<open>
  Modelled from the spec: the table \<^verbatim>\<open>namespace.binding\<close> of \<^verbatim>\<open>urn.ts\<close> (not
  among the sources), with the three bindings of the specification's data model under
  their SAML 2.0 names. The theorems take the table as a parameter; this one
  instantiates them.
\<close>

definition saml_binding :: "string \<Rightarrow> string option" where
  "saml_binding =
     [''redirect'' \<mapsto> ''urn:oasis:names:tc:SAML:2.0:bindings:HTTP-Redirect'',
      ''post'' \<mapsto> ''urn:oasis:names:tc:SAML:2.0:bindings:HTTP-POST'',
      ''artifact'' \<mapsto> ''urn:oasis:names:tc:SAML:2.0:bindings:HTTP-Artifact'']"

text \<open>
  The remaining definitions of this section are sample collaborators and entities.
  They stand in no theorem but the instances at concrete inputs.
\<close>

definition example_sp :: entity where
  "example_sp =
     \<lparr>entitySetting = Map.empty,
      entityMeta =
        \<lparr>isWantAuthnRequestsSigned = False,
         getAssertionConsumerService =
           (\<lambda>b. if b = ''post'' then Str ''https://sp.example.org/acs'' else Undefined)\<rparr>\<rparr>"

definition example_idp :: entity where
  "example_idp =
     \<lparr>entitySetting = [''entityID'' \<mapsto> Str ''https://idp.example.org/metadata''],
      entityMeta =
        \<lparr>isWantAuthnRequestsSigned = True,
         getAssertionConsumerService = (\<lambda>b. Undefined)\<rparr>\<rparr>"

text \<open>A response builder that records a signing step in the outside world.\<close>

definition example_base64LoginResponse ::
  "jsval \<Rightarrow> entity \<Rightarrow> jsval \<Rightarrow> jsval \<Rightarrow> jsval \<Rightarrow> string list world
     \<Rightarrow> (error + object) \<times> string list world" where
  "example_base64LoginResponse requestInfo sp user customTagReplacement encryptThenSign w =
     (Inr [''id'' \<mapsto> Str ''_response1'', ''context'' \<mapsto> Str ''PFJlc3BvbnNlLz4=''],
      w\<lparr>ext := ''sign'' # ext w\<rparr>)"

definition example_attributeStatementBuilder :: "jsval \<Rightarrow> error + jsval" where
  "example_attributeStatementBuilder attributes =
     (case attributes of
        Arr xs \<Rightarrow> Inr (Str ''<saml:AttributeStatement></saml:AttributeStatement>'')
      | _ \<Rightarrow> Inl (Error ''attributes.map is not a function''))"

text \<open>A substitution for templates that are the placeholder and nothing else.\<close>

definition example_replaceTagsByValue :: "jsval \<Rightarrow> jsval \<Rightarrow> error + jsval" where
  "example_replaceTagsByValue rawXML tagValues =
     (case (rawXML, getProp tagValues ''AttributeStatement'') of
        (Str raw, Str statement) \<Rightarrow>
          Inr (Str (if raw = ''{AttributeStatement}'' then statement else raw))
      | _ \<Rightarrow> Inl (Error ''rawXML.replace is not a function''))"

text \<open>
  Settings with an entity ID and an own property \<^verbatim>\<open>__proto__\<close>, settings with a
  well-formed login response template, and settings whose template has a string
  where the list of attributes belongs.
\<close>

definition entityID_idpSetting :: object where
  "entityID_idpSetting =
     [''entityID'' \<mapsto> Str ''https://idp.example.org/metadata'',
      ''__proto__'' \<mapsto> Obj [''isAdmin'' \<mapsto> Bool True]]"

definition valid_template :: object where
  "valid_template =
     [''context'' \<mapsto> Str ''{AttributeStatement}'',
      ''attributes'' \<mapsto> Arr [Obj [''name'' \<mapsto> Str ''mail'']]]"

definition valid_idpSetting :: object where
  "valid_idpSetting = [''loginResponseTemplate'' \<mapsto> Obj valid_template]"

definition malformed_idpSetting :: object where
  "malformed_idpSetting =
     [''loginResponseTemplate'' \<mapsto>
        Obj [''context'' \<mapsto> Str ''{AttributeStatement}'',
             ''attributes'' \<mapsto> Str ''mail'']]"

text \<open>
  Engines over documents that are their own text: the POST field is taken as it is,
  every text parses, and no signature verifies.
\<close>

definition example_engines :: "string engines" where
  "example_engines =
     \<lparr>decode = (\<lambda>binding req. case req ''body'' of Some (Str s) \<Rightarrow> Some s | _ \<Rightarrow> None),
      parse_xml = (\<lambda>xml. Some xml),
      verify = (\<lambda>doc peer. False),
      extract_entry = (\<lambda>doc entry. Some Map.empty)\<rparr>"

section \<open>The constructor: merge of the settings\<close>

text \<open>
  Two facts every theorem on the constructor rests on: what \<^verbatim>\<open>Object.assign\<close> leaves
  under a name, and that the constructor changes no property of the merged settings but
  \<^verbatim>\<open>loginResponseTemplate\<close>.
\<close>

lemma Object_assign_apply:
  "Object_assign target source k =
     (if k = ''__proto__'' then target k
      else case source k of Some v \<Rightarrow> Some v | None \<Rightarrow> target k)"
  by (simp add: Object_assign_def map_add_def)

lemma Object_assign_proto:
  "Object_assign defaultIdpEntitySetting source ''__proto__'' = None"
  by (simp add: Object_assign_apply defaultIdpEntitySetting_def)

lemma constructor_other_keys:
  assumes "fst (constructor_entitySetting attributeStatementBuilder replaceTagsByValue idpSetting)
           = Inr s"
    and "k \<noteq> ''loginResponseTemplate''"
  shows "s k = Object_assign defaultIdpEntitySetting idpSetting k"
  using assms
  by (auto simp: constructor_entitySetting_def Let_def split: if_splits sum.splits)

text \<open>
  Claim C7. The constructor merges the default settings with the caller's
  \<open>idpSetting\<close>, the caller's value winning under every top-level name that
  \<^verbatim>\<open>Object.assign\<close> writes as a property: when the caller gives no
  \<^verbatim>\<open>wantAuthnRequestsSigned\<close> the merged value is \<^verbatim>\<open>false\<close>, when the caller
  gives no \<^verbatim>\<open>tagPrefix\<close> the merged one is \<^verbatim>\<open>{encryptedAssertion: 'saml'}\<close>,
  and every property the caller gives is kept. Two names stand apart:
  \<^verbatim>\<open>loginResponseTemplate\<close>, which the constructor may rewrite, and
  \<^verbatim>\<open>__proto__\<close>, which the assignment hands to the prototype setter, so that the
  merged settings have no property of that name. \<open>s\<close> is the settings object
  handed to the constructor of \<^verbatim>\<open>Entity\<close>.
\<close>

theorem constructor_merge_defaults:
  assumes "fst (constructor_entitySetting attributeStatementBuilder replaceTagsByValue idpSetting)
           = Inr s"
  shows "(idpSetting ''wantAuthnRequestsSigned'' = None
            \<longrightarrow> s ''wantAuthnRequestsSigned'' = Some (Bool False))
         \<and> (idpSetting ''tagPrefix'' = None
              \<longrightarrow> s ''tagPrefix'' = Some (Obj [''encryptedAssertion'' \<mapsto> Str ''saml'']))
         \<and> (\<forall>k v. k \<noteq> ''loginResponseTemplate'' \<longrightarrow> k \<noteq> ''__proto__''
                  \<longrightarrow> idpSetting k = Some v \<longrightarrow> s k = Some v)
         \<and> s ''__proto__'' = None"
  using constructor_other_keys [OF assms]
  by (simp add: Object_assign_apply defaultIdpEntitySetting_def)

text \<open>
  The theorem at settings that give an entity ID and an own property
  \<^verbatim>\<open>__proto__\<close>, as \<^verbatim>\<open>JSON.parse\<close> builds them: the defaults and the entity ID
  are in the merged settings, the property \<^verbatim>\<open>__proto__\<close> is not.
\<close>

lemma example_entityID_settings:
  "fst (constructor_entitySetting example_attributeStatementBuilder example_replaceTagsByValue
          entityID_idpSetting)
   = Inr (Object_assign defaultIdpEntitySetting entityID_idpSetting)"
  by (simp add: constructor_entitySetting_def Let_def get_def entityID_idpSetting_def)

theorem constructor_merge_defaults_witness:
  "fst (constructor_entitySetting example_attributeStatementBuilder example_replaceTagsByValue
          entityID_idpSetting)
   = Inr (Object_assign defaultIdpEntitySetting entityID_idpSetting)
   \<and> Object_assign defaultIdpEntitySetting entityID_idpSetting ''wantAuthnRequestsSigned''
     = Some (Bool False)
   \<and> Object_assign defaultIdpEntitySetting entityID_idpSetting ''tagPrefix''
     = Some (Obj [''encryptedAssertion'' \<mapsto> Str ''saml''])
   \<and> Object_assign defaultIdpEntitySetting entityID_idpSetting ''entityID''
     = Some (Str ''https://idp.example.org/metadata'')
   \<and> Object_assign defaultIdpEntitySetting entityID_idpSetting ''__proto__'' = None"
  using example_entityID_settings
    constructor_merge_defaults [OF example_entityID_settings]
  by (simp add: entityID_idpSetting_def)

text \<open>
  Claim C9. The merge is shallow: a \<^verbatim>\<open>tagPrefix\<close> of the caller replaces the
  default one as a whole, so the prefix \<^verbatim>\<open>encryptedAssertion\<close> of the settings is
  whatever the caller's object holds under that name, \<^verbatim>\<open>undefined\<close> when it holds
  nothing.
\<close>

theorem constructor_tagPrefix_shallow:
  assumes "fst (constructor_entitySetting attributeStatementBuilder replaceTagsByValue idpSetting)
           = Inr s"
    and "idpSetting ''tagPrefix'' = Some prefix"
  shows "s ''tagPrefix'' = Some prefix
         \<and> getProp (get s ''tagPrefix'') ''encryptedAssertion''
           = getProp prefix ''encryptedAssertion''"
  using constructor_other_keys [OF assms(1), of "''tagPrefix''"] assms(2)
  by (simp add: Object_assign_apply get_def)

text \<open>
  The theorem at \<^verbatim>\<open>{tagPrefix: {}}\<close>: the settings have the empty object, and no
  prefix \<^verbatim>\<open>encryptedAssertion\<close>.
\<close>

lemma example_tagPrefix_settings:
  "fst (constructor_entitySetting example_attributeStatementBuilder example_replaceTagsByValue
          [''tagPrefix'' \<mapsto> Obj Map.empty])
   = Inr (Object_assign defaultIdpEntitySetting [''tagPrefix'' \<mapsto> Obj Map.empty])"
  by (simp add: constructor_entitySetting_def Let_def get_def)

theorem constructor_tagPrefix_shallow_witness:
  "fst (constructor_entitySetting example_attributeStatementBuilder example_replaceTagsByValue
          [''tagPrefix'' \<mapsto> Obj Map.empty])
   = Inr (Object_assign defaultIdpEntitySetting [''tagPrefix'' \<mapsto> Obj Map.empty])
   \<and> Object_assign defaultIdpEntitySetting [''tagPrefix'' \<mapsto> Obj Map.empty] ''tagPrefix''
     = Some (Obj Map.empty)
   \<and> getProp (get (Object_assign defaultIdpEntitySetting [''tagPrefix'' \<mapsto> Obj Map.empty])
                ''tagPrefix'') ''encryptedAssertion''
     = Undefined"
proof -
  have h: "[''tagPrefix'' \<mapsto> Obj Map.empty] ''tagPrefix'' = Some (Obj Map.empty)" by simp
  from constructor_tagPrefix_shallow [OF example_tagPrefix_settings h]
    example_tagPrefix_settings
  show ?thesis by (simp add: get_def)
qed

text \<open>
  Claim C10. A property of the caller that is present and bound to \<^verbatim>\<open>undefined\<close>
  overrides the default: with \<^verbatim>\<open>wantAuthnRequestsSigned: undefined\<close> the merged
  value is \<^verbatim>\<open>undefined\<close>, not the default \<^verbatim>\<open>false\<close>.
\<close>

theorem constructor_undefined_overrides:
  assumes "fst (constructor_entitySetting attributeStatementBuilder replaceTagsByValue idpSetting)
           = Inr s"
    and "idpSetting ''wantAuthnRequestsSigned'' = Some Undefined"
  shows "s ''wantAuthnRequestsSigned'' = Some Undefined
         \<and> s ''wantAuthnRequestsSigned'' \<noteq> defaultIdpEntitySetting ''wantAuthnRequestsSigned''"
  using constructor_other_keys [OF assms(1), of "''wantAuthnRequestsSigned''"] assms(2)
  by (simp add: Object_assign_apply defaultIdpEntitySetting_def)

text \<open>
  The theorem at \<^verbatim>\<open>{wantAuthnRequestsSigned: undefined}\<close>.
\<close>

lemma example_undefined_settings:
  "fst (constructor_entitySetting example_attributeStatementBuilder example_replaceTagsByValue
          [''wantAuthnRequestsSigned'' \<mapsto> Undefined])
   = Inr (Object_assign defaultIdpEntitySetting [''wantAuthnRequestsSigned'' \<mapsto> Undefined])"
  by (simp add: constructor_entitySetting_def Let_def get_def)

theorem constructor_undefined_overrides_witness:
  "fst (constructor_entitySetting example_attributeStatementBuilder example_replaceTagsByValue
          [''wantAuthnRequestsSigned'' \<mapsto> Undefined])
   = Inr (Object_assign defaultIdpEntitySetting [''wantAuthnRequestsSigned'' \<mapsto> Undefined])
   \<and> Object_assign defaultIdpEntitySetting [''wantAuthnRequestsSigned'' \<mapsto> Undefined]
        ''wantAuthnRequestsSigned''
     = Some Undefined
   \<and> defaultIdpEntitySetting ''wantAuthnRequestsSigned'' = Some (Bool False)"
proof -
  have h: "[''wantAuthnRequestsSigned'' \<mapsto> Undefined] ''wantAuthnRequestsSigned''
           = Some Undefined"
    by simp
  from constructor_undefined_overrides [OF example_undefined_settings h]
    example_undefined_settings
  show ?thesis by (simp add: defaultIdpEntitySetting_def)
qed

section \<open>The constructor: the login response template\<close>

text \<open>
  Claim C6. When the caller's \<^verbatim>\<open>loginResponseTemplate\<close> has a string
  \<^verbatim>\<open>context\<close> and an array \<^verbatim>\<open>attributes\<close>, and the two functions of
  \<^verbatim>\<open>libsaml\<close> return, the constructor stores the template with its
  \<^verbatim>\<open>context\<close> replaced by
  \<^verbatim>\<open>replaceTagsByValue(context, {AttributeStatement: attributeStatementBuilder(attributes)})\<close>
  and its other properties as they were; nothing is written to the console. This
  happens at construction, before any call of a method.
\<close>

theorem constructor_valid_template:
  assumes "idpSetting ''loginResponseTemplate'' = Some (Obj template)"
    and "template ''context'' = Some (Str context)"
    and "template ''attributes'' = Some (Arr attributes)"
    and "attributeStatementBuilder (Arr attributes) = Inr statement"
    and "replaceTagsByValue (Str context) (Obj [''AttributeStatement'' \<mapsto> statement])
         = Inr substituted"
  shows "constructor_entitySetting attributeStatementBuilder replaceTagsByValue idpSetting
         = (Inr ((Object_assign defaultIdpEntitySetting idpSetting)
                   (''loginResponseTemplate'' \<mapsto>
                      Obj (template(''context'' \<mapsto> substituted)))),
            [])"
  using assms
  by (simp add: constructor_entitySetting_def Let_def get_def Object_assign_apply)

text \<open>
  The theorem at a template that is the placeholder alone, with one attribute.
\<close>

theorem constructor_valid_template_witness:
  "valid_idpSetting ''loginResponseTemplate'' = Some (Obj valid_template)
   \<and> valid_template ''context'' = Some (Str ''{AttributeStatement}'')
   \<and> valid_template ''attributes'' = Some (Arr [Obj [''name'' \<mapsto> Str ''mail'']])
   \<and> example_attributeStatementBuilder (Arr [Obj [''name'' \<mapsto> Str ''mail'']])
     = Inr (Str ''<saml:AttributeStatement></saml:AttributeStatement>'')
   \<and> example_replaceTagsByValue (Str ''{AttributeStatement}'')
       (Obj [''AttributeStatement'' \<mapsto>
               Str ''<saml:AttributeStatement></saml:AttributeStatement>''])
     = Inr (Str ''<saml:AttributeStatement></saml:AttributeStatement>'')
   \<and> constructor_entitySetting example_attributeStatementBuilder example_replaceTagsByValue
       valid_idpSetting
     = (Inr ((Object_assign defaultIdpEntitySetting valid_idpSetting)
               (''loginResponseTemplate'' \<mapsto>
                  Obj (valid_template
                       (''context'' \<mapsto>
                          Str ''<saml:AttributeStatement></saml:AttributeStatement>'')))),
        [])"
proof -
  have h1: "valid_idpSetting ''loginResponseTemplate'' = Some (Obj valid_template)"
    by (simp add: valid_idpSetting_def)
  have h2: "valid_template ''context'' = Some (Str ''{AttributeStatement}'')"
    by (simp add: valid_template_def)
  have h3: "valid_template ''attributes'' = Some (Arr [Obj [''name'' \<mapsto> Str ''mail'']])"
    by (simp add: valid_template_def)
  have h4: "example_attributeStatementBuilder (Arr [Obj [''name'' \<mapsto> Str ''mail'']])
            = Inr (Str ''<saml:AttributeStatement></saml:AttributeStatement>'')"
    by (simp add: example_attributeStatementBuilder_def)
  have h5: "example_replaceTagsByValue (Str ''{AttributeStatement}'')
              (Obj [''AttributeStatement'' \<mapsto>
                      Str ''<saml:AttributeStatement></saml:AttributeStatement>''])
            = Inr (Str ''<saml:AttributeStatement></saml:AttributeStatement>'')"
    by (simp add: example_replaceTagsByValue_def get_def)
  from constructor_valid_template
         [where idpSetting = valid_idpSetting and template = valid_template
            and attributeStatementBuilder = example_attributeStatementBuilder
            and replaceTagsByValue = example_replaceTagsByValue,
          OF h1 h2 h3 h4 h5]
       h1 h2 h3 h4 h5
  show ?thesis by blast
qed

text \<open>
  Claim C2, as the code has it. When \<^verbatim>\<open>loginResponseTemplate\<close> is truthy but its
  \<^verbatim>\<open>context\<close> is no string or its \<^verbatim>\<open>attributes\<close> no array, the constructor
  throws nothing of its own, writes the one warning
  \<^verbatim>\<open>Invalid login response template\<close>, calls neither function of
  \<^verbatim>\<open>libsaml\<close>, and hands the constructor of \<^verbatim>\<open>Entity\<close> the plain merge of
  the defaults and \<open>idpSetting\<close>. In that merge \<^verbatim>\<open>loginResponseTemplate\<close> is
  the caller's value, unchanged: the template is not substituted, and it is not
  removed either.
\<close>

theorem constructor_invalid_template:
  assumes "truthy (get idpSetting ''loginResponseTemplate'')"
    and "\<not> (isString (getProp (get idpSetting ''loginResponseTemplate'') ''context'')
            \<and> isArray (getProp (get idpSetting ''loginResponseTemplate'') ''attributes''))"
  shows "constructor_entitySetting attributeStatementBuilder replaceTagsByValue idpSetting
         = (Inr (Object_assign defaultIdpEntitySetting idpSetting),
            [''Invalid login response template''])
         \<and> IdentityProvider Entity attributeStatementBuilder replaceTagsByValue idpSetting
           = (Entity (Object_assign defaultIdpEntitySetting idpSetting) ''idp'',
              [''Invalid login response template''])
         \<and> get (Object_assign defaultIdpEntitySetting idpSetting) ''loginResponseTemplate''
           = get idpSetting ''loginResponseTemplate''"
proof -
  have c: "constructor_entitySetting attributeStatementBuilder replaceTagsByValue idpSetting
           = (Inr (Object_assign defaultIdpEntitySetting idpSetting),
              [''Invalid login response template''])"
    using assms by (auto simp: constructor_entitySetting_def Let_def)
  have g: "get (Object_assign defaultIdpEntitySetting idpSetting) ''loginResponseTemplate''
           = get idpSetting ''loginResponseTemplate''"
    using assms(1)
    by (cases "idpSetting ''loginResponseTemplate''") (simp_all add: get_def Object_assign_apply)
  from c g show ?thesis by (simp add: IdentityProvider_def)
qed

text \<open>
  The theorem at a template whose \<^verbatim>\<open>attributes\<close> is a string.
\<close>

lemma malformed_truthy: "truthy (get malformed_idpSetting ''loginResponseTemplate'')"
  by (simp add: malformed_idpSetting_def get_def)

lemma malformed_shape:
  "\<not> (isString (getProp (get malformed_idpSetting ''loginResponseTemplate'') ''context'')
      \<and> isArray (getProp (get malformed_idpSetting ''loginResponseTemplate'') ''attributes''))"
  by (simp add: malformed_idpSetting_def get_def)

theorem constructor_invalid_template_witness:
  "truthy (get malformed_idpSetting ''loginResponseTemplate'')
   \<and> \<not> (isString (getProp (get malformed_idpSetting ''loginResponseTemplate'') ''context'')
         \<and> isArray (getProp (get malformed_idpSetting ''loginResponseTemplate'') ''attributes''))
   \<and> constructor_entitySetting example_attributeStatementBuilder example_replaceTagsByValue
        malformed_idpSetting
      = (Inr (Object_assign defaultIdpEntitySetting malformed_idpSetting),
         [''Invalid login response template''])
   \<and> get (Object_assign defaultIdpEntitySetting malformed_idpSetting) ''loginResponseTemplate''
      = get malformed_idpSetting ''loginResponseTemplate''"
  using malformed_truthy malformed_shape
    constructor_invalid_template [OF malformed_truthy malformed_shape,
      of example_attributeStatementBuilder example_replaceTagsByValue]
  by blast

text \<open>
  Claim C2 says that the rejected template is left unset in the settings. At the
  template above the settings handed on still hold it: the property is present, and
  its value is the caller's object, not \<^verbatim>\<open>undefined\<close>.
\<close>

theorem constructor_invalid_template_kept:
  "fst (constructor_entitySetting example_attributeStatementBuilder example_replaceTagsByValue
          malformed_idpSetting)
   = Inr (Object_assign defaultIdpEntitySetting malformed_idpSetting)
   \<and> Object_assign defaultIdpEntitySetting malformed_idpSetting ''loginResponseTemplate''
     = Some (Obj [''context'' \<mapsto> Str ''{AttributeStatement}'',
                  ''attributes'' \<mapsto> Str ''mail''])
   \<and> Object_assign defaultIdpEntitySetting malformed_idpSetting ''loginResponseTemplate''
     \<noteq> None
   \<and> get (Object_assign defaultIdpEntitySetting malformed_idpSetting) ''loginResponseTemplate''
     \<noteq> Undefined"
  by (simp add: constructor_entitySetting_def Let_def malformed_idpSetting_def get_def
        Object_assign_apply)

section \<open>createLoginResponse\<close>

text \<open>
  With a table that gives distinct names distinct values and defines
  \<^verbatim>\<open>redirect\<close>, no name but \<^verbatim>\<open>post\<close> resolves to the protocol of
  \<^verbatim>\<open>post\<close>: neither through its own entry nor through the fallback to
  \<^verbatim>\<open>redirect\<close>.
\<close>

lemma or_else_not_post:
  assumes "binding \<noteq> ''post''"
    and "inj_on namespace_binding (dom namespace_binding)"
    and "''redirect'' \<in> dom namespace_binding"
  shows "or_else (namespace_binding binding) (namespace_binding ''redirect'')
           \<noteq> namespace_binding ''post''"
proof
  assume eq: "or_else (namespace_binding binding) (namespace_binding ''redirect'')
                = namespace_binding ''post''"
  from assms(3) obtain r where r: "namespace_binding ''redirect'' = Some r" by auto
  show False
  proof (cases "namespace_binding binding")
    case None
    with eq r have "namespace_binding ''post'' = namespace_binding ''redirect''"
      by (simp add: or_else_def)
    moreover from this r have "''post'' \<in> dom namespace_binding" by auto
    ultimately have "''post'' = ''redirect''"
      using assms(2,3) by (auto dest: inj_onD)
    then show False by simp
  next
    case (Some s)
    show False
    proof (cases "s = []")
      case True
      with Some eq r have "namespace_binding ''post'' = namespace_binding ''redirect''"
        by (simp add: or_else_def)
      moreover from this r have "''post'' \<in> dom namespace_binding" by auto
      ultimately have "''post'' = ''redirect''"
        using assms(2,3) by (auto dest: inj_onD)
      then show False by simp
    next
      case False
      with Some eq have p: "namespace_binding ''post'' = namespace_binding binding"
        by (simp add: or_else_def)
      with Some have "''post'' \<in> dom namespace_binding" "binding \<in> dom namespace_binding"
        by auto
      with p assms(2) have "''post'' = binding" by (auto dest: inj_onD)
      with assms(1) show False by simp
    qed
  qed
qed

text \<open>
  Claim C1. For every binding other than \<^verbatim>\<open>post\<close> (\<^verbatim>\<open>artifact\<close>,
  \<^verbatim>\<open>redirect\<close>, and every string that names no binding and so falls back to
  \<^verbatim>\<open>redirect\<close>), \<^verbatim>\<open>createLoginResponse\<close> fails with the error
  \<^verbatim>\<open>this binding is not supported\<close> (the specification's UnsupportedBindingError),
  returns no payload, and leaves the whole state as it was: the response builder is
  not run, so nothing is signed or encrypted. The table \<^verbatim>\<open>namespace.binding\<close> is
  any table that gives distinct names distinct values and has an entry for
  \<^verbatim>\<open>redirect\<close>; the response builder is arbitrary.
\<close>

theorem createLoginResponse_unsupported_binding:
  assumes "binding \<noteq> ''post''"
    and "inj_on namespace_binding (dom namespace_binding)"
    and "''redirect'' \<in> dom namespace_binding"
  shows "createLoginResponse namespace_binding base64LoginResponse
           sp requestInfo binding user customTagReplacement encryptThenSign w
         = (Inl (Error ''this binding is not supported''), w)"
  using or_else_not_post [OF assms] by (simp add: createLoginResponse_def)

text \<open>
  The theorem at the binding \<^verbatim>\<open>artifact\<close> and the SAML 2.0 table, with a response
  builder that would have recorded a signature.
\<close>

lemma inj_saml_binding: "inj_on saml_binding (dom saml_binding)"
  by (auto simp: inj_on_def saml_binding_def dom_def split: if_splits)

lemma redirect_saml_binding: "''redirect'' \<in> dom saml_binding"
  by (simp add: saml_binding_def)

theorem createLoginResponse_unsupported_binding_witness:
  "''artifact'' \<noteq> ''post''
   \<and> inj_on saml_binding (dom saml_binding)
   \<and> ''redirect'' \<in> dom saml_binding
   \<and> createLoginResponse saml_binding example_base64LoginResponse
        example_sp Undefined ''artifact'' Undefined Undefined Undefined
        \<lparr>idp = example_idp, ext = []\<rparr>
      = (Inl (Error ''this binding is not supported''), \<lparr>idp = example_idp, ext = []\<rparr>)"
proof -
  have h: "''artifact'' \<noteq> ''post''" by simp
  show ?thesis
    using h inj_saml_binding redirect_saml_binding
      createLoginResponse_unsupported_binding
        [OF h inj_saml_binding redirect_saml_binding,
         of example_base64LoginResponse example_sp Undefined Undefined Undefined Undefined
            "\<lparr>idp = example_idp, ext = []\<rparr>"]
    by simp
qed

text \<open>
  Claim C5. Every call with the binding \<^verbatim>\<open>post\<close> that succeeds returns the object
  the response builder produced (the encoded response \<^verbatim>\<open>context\<close> with it),
  extended by \<^verbatim>\<open>type\<close>, the string \<^verbatim>\<open>SAMLResponse\<close>, and by
  \<^verbatim>\<open>entityEndpoint\<close>, the value of
  \<^verbatim>\<open>sp.entityMeta.getAssertionConsumerService(binding)\<close>.
\<close>

theorem createLoginResponse_post_payload:
  assumes "createLoginResponse namespace_binding base64LoginResponse
             sp requestInfo ''post'' user customTagReplacement encryptThenSign w
           = (Inr payload, w')"
  shows "\<exists>context.
           base64LoginResponse requestInfo sp user customTagReplacement encryptThenSign w
             = (Inr context, w')
           \<and> payload = context(''entityEndpoint'' \<mapsto>
                                  getAssertionConsumerService (entityMeta sp) ''post'',
                                ''type'' \<mapsto> Str ''SAMLResponse'')
           \<and> payload ''type'' = Some (Str ''SAMLResponse'')
           \<and> payload ''entityEndpoint''
               = Some (getAssertionConsumerService (entityMeta sp) ''post'')
           \<and> payload ''context'' = context ''context''"
  using assms
  by (auto simp: createLoginResponse_def Let_def split: if_splits prod.splits sum.splits)

text \<open>
  The theorem at a call that succeeds.
\<close>

lemma example_post_call:
  "createLoginResponse saml_binding example_base64LoginResponse
     example_sp Undefined ''post'' Undefined Undefined Undefined
     \<lparr>idp = example_idp, ext = []\<rparr>
   = (Inr [''id'' \<mapsto> Str ''_response1'', ''context'' \<mapsto> Str ''PFJlc3BvbnNlLz4='',
           ''entityEndpoint'' \<mapsto> Str ''https://sp.example.org/acs'',
           ''type'' \<mapsto> Str ''SAMLResponse''],
      \<lparr>idp = example_idp, ext = [''sign'']\<rparr>)"
  by (simp add: createLoginResponse_def or_else_def saml_binding_def
        example_base64LoginResponse_def example_sp_def)

theorem createLoginResponse_post_payload_witness:
  "createLoginResponse saml_binding example_base64LoginResponse
     example_sp Undefined ''post'' Undefined Undefined Undefined
     \<lparr>idp = example_idp, ext = []\<rparr>
   = (Inr [''id'' \<mapsto> Str ''_response1'', ''context'' \<mapsto> Str ''PFJlc3BvbnNlLz4='',
           ''entityEndpoint'' \<mapsto> Str ''https://sp.example.org/acs'',
           ''type'' \<mapsto> Str ''SAMLResponse''],
      \<lparr>idp = example_idp, ext = [''sign'']\<rparr>)
   \<and> (\<exists>context.
         example_base64LoginResponse Undefined example_sp Undefined Undefined Undefined
           \<lparr>idp = example_idp, ext = []\<rparr>
           = (Inr context, \<lparr>idp = example_idp, ext = [''sign'']\<rparr>)
         \<and> [''id'' \<mapsto> Str ''_response1'', ''context'' \<mapsto> Str ''PFJlc3BvbnNlLz4='',
             ''entityEndpoint'' \<mapsto> Str ''https://sp.example.org/acs'',
             ''type'' \<mapsto> Str ''SAMLResponse'']
            = context(''entityEndpoint'' \<mapsto>
                        getAssertionConsumerService (entityMeta example_sp) ''post'',
                      ''type'' \<mapsto> Str ''SAMLResponse''))"
proof -
  note h = example_post_call
  from createLoginResponse_post_payload [OF h] h show ?thesis by blast
qed

section \<open>parseLoginRequest\<close>

text \<open>
  Claim C3. For every service provider, binding and request, \<^verbatim>\<open>parseLoginRequest\<close>
  is one call of the generic parser, on the same binding and request, with the fixed
  field list (\<^verbatim>\<open>AuthnContextClassRef\<close>; \<^verbatim>\<open>Issuer\<close>; \<^verbatim>\<open>Signature\<close>
  with its entire body; \<^verbatim>\<open>AuthnRequest\<close> with the attribute \<^verbatim>\<open>ID\<close>;
  \<^verbatim>\<open>NameIDPolicy\<close> with the attributes \<^verbatim>\<open>Format\<close> and
  \<^verbatim>\<open>AllowCreate\<close>), with \<^verbatim>\<open>checkSignature\<close> the value of
  \<^verbatim>\<open>entityMeta.isWantAuthnRequestsSigned()\<close> of this identity provider, and with
  \<open>sp\<close> as the peer \<^verbatim>\<open>from\<close>. The generic parser is arbitrary.
\<close>

theorem parseLoginRequest_invokes_genericParser:
  "parseLoginRequest genericParser sp binding req w =
     genericParser
       \<lparr>parserFormat =
          [Str ''AuthnContextClassRef'', Str ''Issuer'',
           Obj [''localName'' \<mapsto> Str ''Signature'', ''extractEntireBody'' \<mapsto> Bool True],
           Obj [''localName'' \<mapsto> Str ''AuthnRequest'', ''attributes'' \<mapsto> Arr [Str ''ID'']],
           Obj [''localName'' \<mapsto> Str ''NameIDPolicy'',
                ''attributes'' \<mapsto> Arr [Str ''Format'', Str ''AllowCreate'']]],
        from_peer = sp,
        checkSignature = isWantAuthnRequestsSigned (entityMeta (idp w)),
        parserType = ''SAMLRequest'',
        type_tag = ''login''\<rparr>
       binding req w"
  by (simp add: parseLoginRequest_def)

text \<open>
  Claim C4, against the generic parser of the specification. When this identity
  provider wants signed requests and the request decodes and parses but its signature
  does not verify against the sending service provider, \<^verbatim>\<open>parseLoginRequest\<close>
  fails with SignatureVerificationError: the result is the error and no map of
  extracted fields, whatever the extraction would have found.
\<close>

theorem parseLoginRequest_signature_failure:
  assumes "isWantAuthnRequestsSigned (entityMeta (idp w))"
    and "decode eng binding req = Some xml"
    and "parse_xml eng xml = Some doc"
    and "\<not> verify eng doc sp"
  shows "parseLoginRequest (Entity_genericParser eng) sp binding req w
         = (Inl SignatureVerificationError, w)"
  using assms by (simp add: parseLoginRequest_def Entity_genericParser_def)

text \<open>
  The theorem at a request in the POST binding, with engines under which no signature
  verifies.
\<close>

theorem parseLoginRequest_signature_failure_witness:
  "isWantAuthnRequestsSigned (entityMeta (idp \<lparr>idp = example_idp, ext = []\<rparr>))
   \<and> decode example_engines ''post'' [''body'' \<mapsto> Str ''<AuthnRequest/>'']
       = Some ''<AuthnRequest/>''
   \<and> parse_xml example_engines ''<AuthnRequest/>'' = Some ''<AuthnRequest/>''
   \<and> \<not> verify example_engines ''<AuthnRequest/>'' example_sp
   \<and> parseLoginRequest (Entity_genericParser example_engines) example_sp ''post''
        [''body'' \<mapsto> Str ''<AuthnRequest/>''] \<lparr>idp = example_idp, ext = ([] :: string list)\<rparr>
      = (Inl SignatureVerificationError, \<lparr>idp = example_idp, ext = []\<rparr>)"
proof -
  have h1: "isWantAuthnRequestsSigned (entityMeta (idp \<lparr>idp = example_idp, ext = ([] :: string list)\<rparr>))"
    by (simp add: example_idp_def)
  have h2: "decode example_engines ''post'' [''body'' \<mapsto> Str ''<AuthnRequest/>'']
              = Some ''<AuthnRequest/>''"
    by (simp add: example_engines_def)
  have h3: "parse_xml example_engines ''<AuthnRequest/>'' = Some ''<AuthnRequest/>''"
    by (simp add: example_engines_def)
  have h4: "\<not> verify example_engines ''<AuthnRequest/>'' example_sp"
    by (simp add: example_engines_def)
  from parseLoginRequest_signature_failure [OF h1 h2 h3 h4] h1 h2 h3 h4
  show ?thesis by simp
qed

section \<open>The entity settings are not written\<close>

text \<open>
  What each method does to the state: \<^verbatim>\<open>createLoginResponse\<close> leaves the state
  its response builder leaves, or the state it found when the binding is refused;
  \<^verbatim>\<open>parseLoginRequest\<close> leaves the state the generic parser leaves. Neither has
  an assignment of its own. The two collaborators of the specification return the
  state as it came.
\<close>

lemma createLoginResponse_state:
  "snd (createLoginResponse namespace_binding base64LoginResponse
          sp requestInfo binding user customTagReplacement encryptThenSign w)
   = (if or_else (namespace_binding binding) (namespace_binding ''redirect'')
           = namespace_binding ''post''
      then snd (base64LoginResponse requestInfo sp user customTagReplacement encryptThenSign w)
      else w)"
  by (simp add: createLoginResponse_def split: prod.splits sum.splits)

lemma parseLoginRequest_state:
  "snd (parseLoginRequest genericParser sp binding req w)
   = snd (genericParser
            \<lparr>parserFormat =
               [Str ''AuthnContextClassRef'', Str ''Issuer'',
                Obj [''localName'' \<mapsto> Str ''Signature'', ''extractEntireBody'' \<mapsto> Bool True],
                Obj [''localName'' \<mapsto> Str ''AuthnRequest'',
                     ''attributes'' \<mapsto> Arr [Str ''ID'']],
                Obj [''localName'' \<mapsto> Str ''NameIDPolicy'',
                     ''attributes'' \<mapsto> Arr [Str ''Format'', Str ''AllowCreate'']]],
             from_peer = sp,
             checkSignature = isWantAuthnRequestsSigned (entityMeta (idp w)),
             parserType = ''SAMLRequest'',
             type_tag = ''login''\<rparr>
            binding req w)"
  by (simp add: parseLoginRequest_def)

lemma postBinding_base64LoginResponse_state:
  "snd (postBinding_base64LoginResponse eng requestInfo sp user customTagReplacement
          encryptThenSign w) = w"
  by (simp add: postBinding_base64LoginResponse_def split: sum.splits)

lemma Entity_genericParser_state:
  "snd (Entity_genericParser eng opts binding req w) = w"
  by (simp add: Entity_genericParser_def split: option.splits)

text \<open>
  Claim C8, against the response builder and the generic parser of the
  specification. Neither \<^verbatim>\<open>createLoginResponse\<close> nor \<^verbatim>\<open>parseLoginRequest\<close>
  writes the settings of the identity provider: for every call, with every binding,
  whatever the engines do and whether the call returns a result or an error, the
  settings after the call are the settings before it.
\<close>

theorem methods_preserve_entitySetting:
  "entitySetting (idp (snd (createLoginResponse namespace_binding
                              (postBinding_base64LoginResponse builder)
                              sp requestInfo binding user customTagReplacement
                              encryptThenSign w)))
   = entitySetting (idp w)
   \<and> entitySetting (idp (snd (parseLoginRequest (Entity_genericParser parser)
                                 sp binding req w)))
     = entitySetting (idp w)"
  by (simp add: createLoginResponse_state parseLoginRequest_state
        postBinding_base64LoginResponse_state Entity_genericParser_state)

end
